theory Spec2Isabelle
  imports Complex_Main
begin

section \<open>Data model\<close>

text \<open>
  A Python \<open>str\<close> is a sequence of Unicode code points; a phoneme symbol is such a
  string. Indexing a string (\<open>phoneme[0]\<close>) gives the string of length one that holds
  the code point at that index, slicing (\<open>phoneme[1:]\<close>) the rest.
\<close>

type_synonym codepoint = nat
type_synonym pystr = "codepoint list"

text \<open>
  The two members of the \<open>gruut_ipa\<close> library that \<open>text_to_speech\<close> uses:
  the predicate \<open>gruut_ipa.IPA.is_stress\<close> (applied to a string of length one) and the
  marker \<open>gruut_ipa.IPA.BREAK_MAJOR.value\<close>. The library is not part of the
  repository, so both are parameters of the model.
\<close>

record IPA =
  is_stress :: "pystr \<Rightarrow> bool"
  BREAK_MAJOR :: pystr

text \<open>A tokenized sentence as \<open>text_to_speech\<close> reads it: its clean words and its tokens.\<close>

record 'tok Sentence =
  clean_words :: "pystr list"
  tokens :: "'tok list"

section \<open>Phonemes of a sentence (\<open>text_to_speech\<close>, lines 69-94)\<close>

text \<open>
  The loop \<open>for phoneme in word_prons[0]\<close> with the list \<open>first_pron\<close> it appends to:
  an empty phoneme is passed over (\<open>continue\<close>); a phoneme whose first character is a
  stress marker contributes that character and then the rest of the phoneme; any
  other phoneme contributes itself.
\<close>

fun phonemes_loop :: "IPA \<Rightarrow> pystr list \<Rightarrow> pystr list \<Rightarrow> pystr list" where
  "phonemes_loop ipa [] first_pron = first_pron"
| "phonemes_loop ipa (phoneme # rest) first_pron =
     (case phoneme of
        [] \<Rightarrow> phonemes_loop ipa rest first_pron
      | c # cs \<Rightarrow>
          if is_stress ipa [c]
          then phonemes_loop ipa rest ((first_pron @ [[c]]) @ [cs])
          else phonemes_loop ipa rest (first_pron @ [c # cs]))"

text \<open>
  The loop \<open>for word_prons in sentence_prons\<close>: a word with no pronunciation
  contributes nothing, any other word the phonemes of its first pronunciation.
\<close>

fun words_loop :: "IPA \<Rightarrow> pystr list list list \<Rightarrow> pystr list \<Rightarrow> pystr list" where
  "words_loop ipa [] first_pron = first_pron"
| "words_loop ipa (word_prons # rest) first_pron =
     (case word_prons of
        [] \<Rightarrow> words_loop ipa rest first_pron
      | pron0 # others \<Rightarrow> words_loop ipa rest (phonemes_loop ipa pron0 first_pron))"

definition first_pron :: "IPA \<Rightarrow> pystr list list list \<Rightarrow> pystr list" where
  "first_pron ipa sentence_prons = words_loop ipa sentence_prons []"

text \<open>
  Lines 84-92: \<open>None\<close> is the \<open>continue\<close> of a sentence without phonemes; otherwise
  a major break is appended unless the last phoneme is one, and then another.
\<close>

definition sentence_phonemes :: "IPA \<Rightarrow> pystr list list list \<Rightarrow> pystr list option" where
  "sentence_phonemes ipa sentence_prons =
     (let fp = first_pron ipa sentence_prons in
      if fp = [] then None
      else
        let fp1 = (if last fp \<noteq> BREAK_MAJOR ipa then fp @ [BREAK_MAJOR ipa] else fp);
            fp2 = fp1 @ [BREAK_MAJOR ipa]
        in Some fp2)"

text \<open>
  The loop \<open>for sentence in sentences\<close> (lines 61-94) over the pair
  \<open>(clean_words, text_phonemes)\<close>. \<open>phonemize\<close> is the language's
  \<open>phonemizer.phonemize(tokens, word_indexes=..., word_breaks=True)\<close>.
\<close>

fun sentences_loop ::
  "IPA \<Rightarrow> ('tok list \<Rightarrow> bool \<Rightarrow> bool \<Rightarrow> pystr list list list) \<Rightarrow> bool \<Rightarrow>
   'tok Sentence list \<Rightarrow> pystr list \<times> pystr list \<Rightarrow> pystr list \<times> pystr list" where
  "sentences_loop ipa phonemize word_indexes [] acc = acc"
| "sentences_loop ipa phonemize word_indexes (sentence # rest) acc =
     (let cw = fst acc @ clean_words sentence;
          sentence_prons = phonemize (tokens sentence) word_indexes True
      in case sentence_phonemes ipa sentence_prons of
           None \<Rightarrow> sentences_loop ipa phonemize word_indexes rest (cw, snd acc)
         | Some fp \<Rightarrow> sentences_loop ipa phonemize word_indexes rest (cw, snd acc @ fp))"

section \<open>The phoneme vocabulary (\<open>text_to_speech\<close>, lines 42-48 and 99-100)\<close>

datatype py_error = KeyError pystr | ZeroDivisionError | IndexError

text \<open>
  The dict comprehension \<open>{p: i for i, p in enumerate(phonemes_list)}\<close>: the list is
  walked from the front with the running index, and a later entry for the same key
  replaces the earlier one.
\<close>

fun enumerate_dict :: "nat \<Rightarrow> pystr list \<Rightarrow> (pystr \<rightharpoonup> nat) \<Rightarrow> (pystr \<rightharpoonup> nat)" where
  "enumerate_dict i [] d = d"
| "enumerate_dict i (p # ps) d = enumerate_dict (Suc i) ps (d(p \<mapsto> i))"

definition build_phoneme_to_id :: "pystr list \<Rightarrow> (pystr \<rightharpoonup> nat)" where
  "build_phoneme_to_id phonemes_list = enumerate_dict 0 phonemes_list Map.empty"

text \<open>
  The language object \<open>gruut_lang\<close> as \<open>text_to_speech\<close> uses it. The tokenizer, the
  phonemizer and \<open>id_to_phonemes()\<close> belong to the \<open>gruut\<close> library and are taken as
  given: \<open>tokenize\<close> is \<open>tokenizer.tokenize(text, number_converters=...,
  replace_currency=...)\<close> as a list, \<open>phonemize\<close> is \<open>phonemizer.phonemize(tokens,
  word_indexes=..., word_breaks=...)\<close>, \<open>id_to_phonemes\<close> is the list that
  \<open>id_to_phonemes()\<close> returns. \<open>phoneme_to_id\<close> is the attribute that
  \<open>text_to_speech\<close> reads with \<open>getattr(gruut_lang, "phoneme_to_id", None)\<close> and sets
  with \<open>setattr\<close>: \<open>None\<close> when the attribute is absent or \<open>None\<close>.
\<close>

record 'tok Language =
  tokenize :: "pystr \<Rightarrow> bool \<Rightarrow> bool \<Rightarrow> 'tok Sentence list"
  phonemize :: "'tok list \<Rightarrow> bool \<Rightarrow> bool \<Rightarrow> pystr list list list"
  id_to_phonemes :: "pystr list"
  phoneme_to_id :: "(pystr \<rightharpoonup> nat) option"

text \<open>
  Lines 42-48: the mapping in use and the language object afterwards. The mapping is
  built, and stored on the language, only when the attribute reads \<open>None\<close>.
\<close>

definition ensure_phoneme_to_id :: "'tok Language \<Rightarrow> (pystr \<rightharpoonup> nat) \<times> 'tok Language" where
  "ensure_phoneme_to_id gruut_lang =
     (case phoneme_to_id gruut_lang of
        None \<Rightarrow>
          let d = build_phoneme_to_id (id_to_phonemes gruut_lang)
          in (d, gruut_lang\<lparr>phoneme_to_id := Some d\<rparr>)
      | Some d \<Rightarrow> (d, gruut_lang))"

text \<open>
  Line 100, \<open>[phoneme_to_id[p] for p in text_phonemes]\<close>: subscripting a dict with a
  key it does not hold raises \<open>KeyError\<close> with that key, at the first such symbol.
\<close>

fun phoneme_ids :: "(pystr \<rightharpoonup> nat) \<Rightarrow> pystr list \<Rightarrow> py_error + nat list" where
  "phoneme_ids d [] = Inr []"
| "phoneme_ids d (p # ps) =
     (case d p of
        None \<Rightarrow> Inl (KeyError p)
      | Some i \<Rightarrow>
          (case phoneme_ids d ps of
             Inl e \<Rightarrow> Inl e
           | Inr ids \<Rightarrow> Inr (i # ids)))"

text \<open>
  The source has no decoder. The round trip reads an id back as the entry of the
  inventory list at that index, \<open>phonemes_list[i]\<close>, which raises \<open>IndexError\<close>
  when the index is not below the length of the list.
\<close>

fun decode_ids :: "pystr list \<Rightarrow> nat list \<Rightarrow> py_error + pystr list" where
  "decode_ids phonemes_list [] = Inr []"
| "decode_ids phonemes_list (i # ids) =
     (if i < length phonemes_list
      then (case decode_ids phonemes_list ids of
              Inl e \<Rightarrow> Inl e
            | Inr ps \<Rightarrow> Inr (phonemes_list ! i # ps))
      else Inl IndexError)"

section \<open>\<open>text_to_speech\<close> (lines 28-134)\<close>

text \<open>
  The two model objects with the one method of each that \<open>text_to_speech\<close> calls, and
  the four readings of \<open>time.perf_counter()\<close>. The readings are finite doubles; their
  difference is zero exactly when they are equal, which is all the control flow
  depends on, so they are modelled as real numbers.
\<close>

record 'mel TextToSpeechModel =
  phonemes_to_mels :: "nat list \<Rightarrow> 'mel"

record ('mel, 'audio) VocoderModel =
  mels_to_audio :: "'mel \<Rightarrow> 'audio"

record perf_counter =
  tts_start_time :: real
  tts_end_time :: real
  vocoder_start_time :: real
  vocoder_end_time :: real

text \<open>
  The calls into the tokenizer, the phonemizer and the two models are taken as
  functions of their arguments; an exception raised inside one of them ends the call
  and is not part of the model.

  The result is the returned audio or the exception raised, together with the
  language object as the call leaves it. Line 123 divides an integer by
  \<open>sample_rate\<close> and line 125 divides by \<open>infer_sec\<close>; either raises
  \<open>ZeroDivisionError\<close> on a zero divisor. The quotients are only logged.
\<close>

definition text_to_speech ::
  "IPA \<Rightarrow> perf_counter \<Rightarrow> pystr \<Rightarrow> 'tok Language \<Rightarrow> 'mel TextToSpeechModel \<Rightarrow>
   ('mel, 'audio) VocoderModel \<Rightarrow> int \<Rightarrow> bool \<Rightarrow> bool \<Rightarrow> bool \<Rightarrow>
   (py_error + 'audio) \<times> 'tok Language" where
  "text_to_speech ipa clock txt gruut_lang tts_model vocoder_model sample_rate
     number_converters disable_currency word_indexes =
     (let (phoneme_to_id', gruut_lang') = ensure_phoneme_to_id gruut_lang;
          sentences = tokenize gruut_lang txt number_converters (\<not> disable_currency);
          (clean_words', text_phonemes) =
            sentences_loop ipa (phonemize gruut_lang) word_indexes sentences ([], [])
      in case phoneme_ids phoneme_to_id' text_phonemes of
           Inl e \<Rightarrow> (Inl e, gruut_lang')
         | Inr ids \<Rightarrow>
             let mels = phonemes_to_mels tts_model ids;
                 audio = mels_to_audio vocoder_model mels
             in if sample_rate = 0 then (Inl ZeroDivisionError, gruut_lang')
                else
                  let infer_sec = vocoder_end_time clock - tts_start_time clock
                  in if infer_sec = 0 then (Inl ZeroDivisionError, gruut_lang')
                     else (Inr audio, gruut_lang'))"

text \<open>
  Lines 123-125 for an audio whose last dimension holds \<open>n\<close> samples
  (\<open>audio.shape[-1]\<close>): the logged real-time factor, or the \<open>ZeroDivisionError\<close> of
  one of the two divisions. The source computes the quotients in double precision;
  the model gives the exact quotients that the doubles round.
\<close>

definition real_time_factor :: "int \<Rightarrow> int \<Rightarrow> perf_counter \<Rightarrow> py_error + real" where
  "real_time_factor n sample_rate clock =
     (if sample_rate = 0 then Inl ZeroDivisionError
      else
        let audio_duration_sec = real_of_int n / real_of_int sample_rate;
            infer_sec = vocoder_end_time clock - tts_start_time clock
        in if infer_sec = 0 then Inl ZeroDivisionError
           else Inr (audio_duration_sec / infer_sec))"

text \<open>
  The list \<open>text_phonemes\<close> at line 97, when the loop over the sentences has ended: the
  sequence that line 100 turns into ids.
\<close>

definition text_phonemes ::
  "IPA \<Rightarrow> 'tok Language \<Rightarrow> pystr \<Rightarrow> bool \<Rightarrow> bool \<Rightarrow> bool \<Rightarrow> pystr list" where
  "text_phonemes ipa gruut_lang txt number_converters disable_currency word_indexes =
     snd (sentences_loop ipa (phonemize gruut_lang) word_indexes
            (tokenize gruut_lang txt number_converters (\<not> disable_currency)) ([], []))"

text \<open>
  What the orchestrator of the specification would give for the same sentences, written
  from the specification's words for comparison with \<open>text_to_speech\<close>: one pair for
  every sentence that has phonemes, in order, holding the sentence (its clean words)
  and the audio inferred from the phonemes of that sentence alone.
\<close>

fun text_and_audios_spec ::
  "IPA \<Rightarrow> (pystr \<rightharpoonup> nat) \<Rightarrow> ('tok list \<Rightarrow> bool \<Rightarrow> bool \<Rightarrow> pystr list list list) \<Rightarrow> bool \<Rightarrow>
   'mel TextToSpeechModel \<Rightarrow> ('mel, 'audio) VocoderModel \<Rightarrow> 'tok Sentence list \<Rightarrow>
   py_error + (pystr list \<times> 'audio) list" where
  "text_and_audios_spec ipa d ph wi tts_model vocoder_model [] = Inr []"
| "text_and_audios_spec ipa d ph wi tts_model vocoder_model (sentence # rest) =
     (case sentence_phonemes ipa (ph (tokens sentence) wi True) of
        None \<Rightarrow> text_and_audios_spec ipa d ph wi tts_model vocoder_model rest
      | Some fp \<Rightarrow>
          (case phoneme_ids d fp of
             Inl e \<Rightarrow> Inl e
           | Inr ids \<Rightarrow>
               (case text_and_audios_spec ipa d ph wi tts_model vocoder_model rest of
                  Inl e \<Rightarrow> Inl e
                | Inr pairs \<Rightarrow>
                    Inr ((clean_words sentence,
                          mels_to_audio vocoder_model (phonemes_to_mels tts_model ids)) # pairs))))"

text \<open>The audios a caller receives from one call: the one returned array, or none.\<close>

definition returned_audios :: "py_error + 'audio \<Rightarrow> 'audio list" where
  "returned_audios r = (case r of Inl e \<Rightarrow> [] | Inr audio \<Rightarrow> [audio])"

section \<open>The model loaders (lines 140-191)\<close>

text \<open>
  The type tags are enumerations declared in \<open>constants.py\<close>, which is not among the
  sources: the members the loaders compare with are constructors of their own, any
  other member is an \<open>Other\<close> value (a value that compares equal to a member is
  that member). The session options are those of
  \<open>onnxruntime\<close>; only the optimization level is written. The constructors of the
  model classes live in modules that are not among the sources either and are
  parameters: what a loader returns for a known tag is whatever the constructor
  gives for the configuration.
\<close>

datatype 'a TextToSpeechType = TACOTRON2 | OtherTextToSpeechType 'a

datatype 'a VocoderType = GRIFFIN_LIM | HIFI_GAN | OtherVocoderType 'a

datatype GraphOptimizationLevel =
  ORT_DISABLE_ALL | ORT_ENABLE_BASIC | ORT_ENABLE_EXTENDED | ORT_ENABLE_ALL

record SessionOptions =
  graph_optimization_level :: GraphOptimizationLevel

record 'path TextToSpeechModelConfig =
  tts_model_path :: 'path
  tts_session_options :: SessionOptions

record 'path VocoderModelConfig =
  vocoder_model_path :: 'path
  vocoder_session_options :: SessionOptions

text \<open>\<open>ValueError\<close> with the fixed part of its message and the tag formatted into it.\<close>

datatype 'tag load_error = ValueError string 'tag

definition load_tts_model ::
  "SessionOptions \<Rightarrow> ('path TextToSpeechModelConfig \<Rightarrow> 'model) \<Rightarrow>
   'a TextToSpeechType \<Rightarrow> 'path \<Rightarrow> bool \<Rightarrow> 'a TextToSpeechType load_error + 'model" where
  "load_tts_model new_options Tacotron2TextToSpeech model_type model_path no_optimizations =
     (let sess_options =
            (if no_optimizations
             then new_options\<lparr>graph_optimization_level := ORT_DISABLE_ALL\<rparr>
             else new_options);
          config = \<lparr>tts_model_path = model_path, tts_session_options = sess_options\<rparr>
      in if model_type = TACOTRON2 then Inr (Tacotron2TextToSpeech config)
         else Inl (ValueError ''Unknown text to speech model type: '' model_type))"

definition load_vocoder_model ::
  "SessionOptions \<Rightarrow> ('path VocoderModelConfig \<Rightarrow> 'model) \<Rightarrow>
   ('path VocoderModelConfig \<Rightarrow> 'model) \<Rightarrow>
   'a VocoderType \<Rightarrow> 'path \<Rightarrow> bool \<Rightarrow> 'a VocoderType load_error + 'model" where
  "load_vocoder_model new_options GriffinLimVocoder HiFiGanVocoder model_type model_path
     no_optimizations =
     (let sess_options =
            (if no_optimizations
             then new_options\<lparr>graph_optimization_level := ORT_DISABLE_ALL\<rparr>
             else new_options);
          config = \<lparr>vocoder_model_path = model_path, vocoder_session_options = sess_options\<rparr>
      in if model_type = GRIFFIN_LIM then Inr (GriffinLimVocoder config)
         else if model_type = HIFI_GAN then Inr (HiFiGanVocoder config)
         else Inl (ValueError ''Unknown vocoder model type: '' model_type))"

section \<open>The phoneme map of the command line (\<open>larynx/__main__.py\<close>, lines 94-125)\<close>

text \<open>
  The values the phoneme map holds (a string or a list of strings, as loaded from
  JSON or guessed) and \<open>None\<close>, the value of a call that ends without \<open>return\<close>.
\<close>

datatype pyvalue = PyNone | PyStr pystr | PyList "pystr list"

definition dict_get :: "('k \<rightharpoonup> 'v) \<Rightarrow> 'k \<Rightarrow> 'v \<Rightarrow> 'v" where
  "dict_get d k dflt = (case d k of None \<Rightarrow> dflt | Some v \<Rightarrow> v)"

text \<open>
  The body of \<open>phoneme_map_transform\<close> is the expression statement
  \<open>phoneme_map.get(p, p)\<close>: the value is computed and dropped, and the call returns
  \<open>None\<close>.
\<close>

definition phoneme_map_transform :: "(pystr \<rightharpoonup> pyvalue) \<Rightarrow> pystr \<Rightarrow> pyvalue" where
  "phoneme_map_transform phoneme_map p =
     (let dropped = dict_get phoneme_map p (PyStr p) in PyNone)"

text \<open>
  The marker values of the \<open>gruut_ipa\<close> library, as a concrete instance of the
  parameters: primary and secondary stress are U+02C8 and U+02CC, the major break
  is the one-character string U+2016.
\<close>

definition unicode_ipa :: IPA where
  "unicode_ipa =
     \<lparr>is_stress = (\<lambda>s. s = [712] \<or> s = [716]), BREAK_MAJOR = [8214]\<rparr>"

section \<open>A concrete language and concrete models\<close>

text \<open>
  An instance of the collaborators for evaluating the definitions. The tokenizer
  answers the text \<open>hi. . ho.\<close> with three sentences, the second of them without
  tokens, the text that is the stress marker U+02C8 alone with one sentence of one
  token, and any other text with no sentence. The phonemizer gives one pronunciation
  of one phoneme per token (for token 0 the stress marker alone). The inventory has
  five symbols. The models hand their input on, so that the audio returned shows the
  ids that reached the mel stage.
\<close>

definition example_text :: pystr where
  "example_text = [104, 105, 46, 32, 46, 32, 104, 111, 46]"

definition example_sentences :: "nat Sentence list" where
  "example_sentences =
     [\<lparr>clean_words = [[104, 105]], tokens = [1]\<rparr>,
      \<lparr>clean_words = [], tokens = []\<rparr>,
      \<lparr>clean_words = [[104, 111]], tokens = [2]\<rparr>]"

definition example_lang :: "nat Language" where
  "example_lang =
     \<lparr>tokenize = (\<lambda>txt number_converters replace_currency.
        if txt = example_text then example_sentences
        else if txt = [712] then [\<lparr>clean_words = [[712]], tokens = [0]\<rparr>]
        else []),
      phonemize = (\<lambda>toks word_indexes word_breaks.
        map (\<lambda>t. [[if t = 0 then [712] else [96 + t]]]) toks),
      id_to_phonemes = [[95], [8214], [97], [98], [712]],
      phoneme_to_id = None\<rparr>"

definition example_tts :: "nat list TextToSpeechModel" where
  "example_tts = \<lparr>phonemes_to_mels = (\<lambda>ids. ids)\<rparr>"

definition example_vocoder :: "(nat list, nat list) VocoderModel" where
  "example_vocoder = \<lparr>mels_to_audio = (\<lambda>mels. mels)\<rparr>"

definition example_clock :: perf_counter where
  "example_clock =
     \<lparr>tts_start_time = 10, tts_end_time = 11, vocoder_start_time = 11, vocoder_end_time = 12\<rparr>"

definition example_vocabulary_map :: "pystr \<rightharpoonup> nat" where
  "example_vocabulary_map = [[95] \<mapsto> 0, [8214] \<mapsto> 1, [97] \<mapsto> 2, [98] \<mapsto> 3, [712] \<mapsto> 4]"

section \<open>Properties of the phoneme sequence\<close>

lemma sentence_phonemes_None_iff:
  "sentence_phonemes ipa sp = None \<longleftrightarrow> first_pron ipa sp = []"
  by (simp add: sentence_phonemes_def Let_def)

lemma sentence_phonemes_Some:
  "first_pron ipa sp \<noteq> [] \<Longrightarrow>
   sentence_phonemes ipa sp =
     Some (first_pron ipa sp @
       (if last (first_pron ipa sp) = BREAK_MAJOR ipa then [BREAK_MAJOR ipa]
        else [BREAK_MAJOR ipa, BREAK_MAJOR ipa]))"
  by (simp add: sentence_phonemes_def Let_def)

lemma sentences_loop_concat:
  "sentences_loop ipa ph wi ss acc =
     (fst acc @ concat (map clean_words ss),
      snd acc @ concat (List.map_filter (\<lambda>s. sentence_phonemes ipa (ph (tokens s) wi True)) ss))"
proof (induction ss arbitrary: acc)
  case Nil
  show ?case by simp
next
  case (Cons s ss)
  show ?case
    by (cases "sentence_phonemes ipa (ph (tokens s) wi True)")
       (simp_all add: Cons.IH Let_def)
qed

text \<open>
  C1. A sentence whose first pronunciations give at least one phoneme is not passed
  over, and the sequence built for it is its phonemes followed by one major break when
  the last phoneme already is a major break and by two otherwise; either way its last
  two symbols are both the major-break marker.
\<close>

theorem sentence_ends_with_two_major_breaks:
  assumes "first_pron ipa sentence_prons \<noteq> []"
  shows "\<exists>fp2 body.
           sentence_phonemes ipa sentence_prons = Some fp2 \<and>
           fp2 = first_pron ipa sentence_prons @
                   (if last (first_pron ipa sentence_prons) = BREAK_MAJOR ipa
                    then [BREAK_MAJOR ipa] else [BREAK_MAJOR ipa, BREAK_MAJOR ipa]) \<and>
           fp2 = body @ [BREAK_MAJOR ipa, BREAK_MAJOR ipa] \<and>
           (ph (tokens s) wi True = sentence_prons \<longrightarrow>
              sentences_loop ipa ph wi (s # rest) acc =
                sentences_loop ipa ph wi rest (fst acc @ clean_words s, snd acc @ fp2))"
proof -
  define fp where "fp = first_pron ipa sentence_prons"
  define bm where "bm = BREAK_MAJOR ipa"
  define fp2 where "fp2 = fp @ (if last fp = bm then [bm] else [bm, bm])"
  from assms have ne: "fp \<noteq> []"
    by (simp add: fp_def)
  have built: "sentence_phonemes ipa sentence_prons = Some fp2"
    using assms by (simp add: sentence_phonemes_Some fp_def bm_def fp2_def)
  have "\<exists>body. fp2 = body @ [bm, bm]"
  proof (cases "last fp = bm")
    case True
    from ne have "butlast fp @ [last fp] = fp"
      by (rule append_butlast_last_id)
    with True have "fp @ [bm] = (butlast fp @ [bm]) @ [bm]"
      by simp
    then have "fp @ [bm] = butlast fp @ [bm, bm]"
      by simp
    with True show ?thesis
      by (auto simp add: fp2_def)
  next
    case False
    then show ?thesis
      by (simp add: fp2_def)
  qed
  then obtain body where ends: "fp2 = body @ [bm, bm]" ..
  have step: "sentences_loop ipa ph wi (s # rest) acc =
      sentences_loop ipa ph wi rest (fst acc @ clean_words s, snd acc @ fp2)"
    if "ph (tokens s) wi True = sentence_prons"
    using that built by (simp add: Let_def)
  from built ends step show ?thesis
    unfolding fp2_def fp_def bm_def by blast
qed

text \<open>
  Two sentences of one word each: the pronunciation with a stressed \<open>a\<close> and a closing
  major break gets one more break; the first example sentence, whose phonemizer output
  is the single phoneme \<open>a\<close>, gets two, and the loop appends them to the utterance.
\<close>

theorem sentence_ends_with_two_major_breaks_witness:
  "first_pron unicode_ipa [[[[712, 97], [8214]]]] \<noteq> [] \<and>
   sentence_phonemes unicode_ipa [[[[712, 97], [8214]]]] =
     Some [[712], [97], [8214], [8214]] \<and>
   first_pron unicode_ipa [[[[97]]]] \<noteq> [] \<and>
   phonemize example_lang (tokens \<lparr>clean_words = [[104, 105]], tokens = [1::nat]\<rparr>) False True =
     [[[[97]]]] \<and>
   sentence_phonemes unicode_ipa [[[[97]]]] = Some [[97], [8214], [8214]] \<and>
   sentences_loop unicode_ipa (phonemize example_lang) False
       [\<lparr>clean_words = [[104, 105]], tokens = [1]\<rparr>] ([], []) =
     ([[104, 105]], [[97], [8214], [8214]])"
proof -
  have a: "first_pron unicode_ipa [[[[712, 97], [8214]]]] = [[712], [97], [8214]]"
    by (simp add: first_pron_def unicode_ipa_def)
  have b: "first_pron unicode_ipa [[[[97]]]] = [[97]]"
    by (simp add: first_pron_def unicode_ipa_def)
  have c: "phonemize example_lang (tokens \<lparr>clean_words = [[104, 105]], tokens = [1::nat]\<rparr>)
      False True = [[[[97]]]]"
    by (simp add: example_lang_def)
  from a have a': "first_pron unicode_ipa [[[[712, 97], [8214]]]] \<noteq> []" by simp
  from b have b': "first_pron unicode_ipa [[[[97]]]] \<noteq> []" by simp
  from sentence_ends_with_two_major_breaks [OF a', of "phonemize example_lang"
      "\<lparr>clean_words = [], tokens = []\<rparr>" False "[]" "([], [])"]
  obtain fp2 where "sentence_phonemes unicode_ipa [[[[712, 97], [8214]]]] = Some fp2"
    and "fp2 = first_pron unicode_ipa [[[[712, 97], [8214]]]] @
           (if last (first_pron unicode_ipa [[[[712, 97], [8214]]]]) = BREAK_MAJOR unicode_ipa
            then [BREAK_MAJOR unicode_ipa]
            else [BREAK_MAJOR unicode_ipa, BREAK_MAJOR unicode_ipa])"
    by blast
  with a have one: "sentence_phonemes unicode_ipa [[[[712, 97], [8214]]]] =
          Some [[712], [97], [8214], [8214]]"
    by (simp add: unicode_ipa_def)
  from sentence_ends_with_two_major_breaks [OF b', of "phonemize example_lang"
      "\<lparr>clean_words = [[104, 105]], tokens = [1]\<rparr>" False "[]" "([], [])"]
  obtain fp2 body where built:
    "sentence_phonemes unicode_ipa [[[[97]]]] = Some fp2 \<and>
     fp2 = first_pron unicode_ipa [[[[97]]]] @
           (if last (first_pron unicode_ipa [[[[97]]]]) = BREAK_MAJOR unicode_ipa
            then [BREAK_MAJOR unicode_ipa]
            else [BREAK_MAJOR unicode_ipa, BREAK_MAJOR unicode_ipa]) \<and>
     fp2 = body @ [BREAK_MAJOR unicode_ipa, BREAK_MAJOR unicode_ipa] \<and>
     (phonemize example_lang
           (tokens \<lparr>clean_words = [[104, 105]], tokens = [1::nat]\<rparr>) False True = [[[[97]]]] \<longrightarrow>
         sentences_loop unicode_ipa (phonemize example_lang) False
           (\<lparr>clean_words = [[104, 105]], tokens = [1]\<rparr> # []) ([], []) =
         sentences_loop unicode_ipa (phonemize example_lang) False []
           (fst ([] :: pystr list, [] :: pystr list) @
              clean_words \<lparr>clean_words = [[104, 105]], tokens = [1::nat]\<rparr>,
            snd ([] :: pystr list, [] :: pystr list) @ fp2))"
    by (elim exE) (rule that)
  from built [THEN conjunct2, THEN conjunct1] b have fp2: "fp2 = [[97], [8214], [8214]]"
    by (simp add: unicode_ipa_def)
  with built [THEN conjunct1]
  have two: "sentence_phonemes unicode_ipa [[[[97]]]] = Some [[97], [8214], [8214]]"
    by simp
  note appended = built [THEN conjunct2, THEN conjunct2, THEN conjunct2, THEN mp, OF c]
  have step: "sentences_loop unicode_ipa (phonemize example_lang) False
       [\<lparr>clean_words = [[104, 105]], tokens = [1]\<rparr>] ([], []) =
     ([[104, 105]], [[97], [8214], [8214]])"
    by (subst appended) (simp add: fp2)
  show ?thesis
    by (intro conjI a' b' c one two step)
qed

lemma sentence_phonemes_nonempty:
  "sentence_phonemes ipa sp = Some fp \<Longrightarrow> fp \<noteq> []"
  by (auto simp add: sentence_phonemes_def Let_def split: if_splits)

lemma text_phonemes_concat:
  "text_phonemes ipa lang txt nc dc wi =
     concat (List.map_filter (\<lambda>s. sentence_phonemes ipa (phonemize lang (tokens s) wi True))
               (tokenize lang txt nc (\<not> dc)))"
  by (simp add: text_phonemes_def sentences_loop_concat)

text \<open>
  C8. A sentence without phonemes is passed over: \<open>sentence_phonemes\<close> is \<open>None\<close> for
  it, and the utterance's phoneme sequence is the same with the sentence and without
  it. The sequence is the concatenation, in order, of what the other sentences
  contribute, and every such contribution is non-empty.
\<close>

theorem sentence_without_phonemes_skipped:
  "(first_pron ipa (ph (tokens s) wi True) = [] \<longrightarrow>
      sentence_phonemes ipa (ph (tokens s) wi True) = None \<and>
      snd (sentences_loop ipa ph wi (before @ s # after) acc) =
        snd (sentences_loop ipa ph wi (before @ after) acc)) \<and>
   snd (sentences_loop ipa ph wi ss acc) =
     snd acc @ concat (List.map_filter (\<lambda>s. sentence_phonemes ipa (ph (tokens s) wi True)) ss) \<and>
   (\<forall>fp \<in> set (List.map_filter (\<lambda>s. sentence_phonemes ipa (ph (tokens s) wi True)) ss). fp \<noteq> [])"
proof -
  have "\<forall>fp \<in> set (List.map_filter (\<lambda>s. sentence_phonemes ipa (ph (tokens s) wi True)) ss). fp \<noteq> []"
    by (auto simp add: List.map_filter_def dest: sentence_phonemes_nonempty)
  moreover have "first_pron ipa (ph (tokens s) wi True) = [] \<longrightarrow>
      sentence_phonemes ipa (ph (tokens s) wi True) = None \<and>
      snd (sentences_loop ipa ph wi (before @ s # after) acc) =
        snd (sentences_loop ipa ph wi (before @ after) acc)"
    by (simp add: sentences_loop_concat sentence_phonemes_None_iff List.map_filter_def)
  ultimately show ?thesis
    by (simp add: sentences_loop_concat)
qed

theorem sentence_without_phonemes_skipped_witness:
  "first_pron unicode_ipa
     (phonemize example_lang (tokens \<lparr>clean_words = [], tokens = []::nat list\<rparr>) False True) = [] \<and>
   sentence_phonemes unicode_ipa
     (phonemize example_lang (tokens \<lparr>clean_words = [], tokens = []::nat list\<rparr>) False True) = None \<and>
   snd (sentences_loop unicode_ipa (phonemize example_lang) False
       ([\<lparr>clean_words = [[104, 105]], tokens = [1]\<rparr>] @ \<lparr>clean_words = [], tokens = []\<rparr> #
        [\<lparr>clean_words = [[104, 111]], tokens = [2]\<rparr>]) ([], [])) =
     snd (sentences_loop unicode_ipa (phonemize example_lang) False
       ([\<lparr>clean_words = [[104, 105]], tokens = [1]\<rparr>] @
        [\<lparr>clean_words = [[104, 111]], tokens = [2]\<rparr>]) ([], [])) \<and>
   snd (sentences_loop unicode_ipa (phonemize example_lang) False example_sentences ([], [])) =
     [[97], [8214], [8214], [98], [8214], [8214]] \<and>
   List.map_filter (\<lambda>s. sentence_phonemes unicode_ipa (phonemize example_lang (tokens s) False True))
     example_sentences = [[[97], [8214], [8214]], [[98], [8214], [8214]]] \<and>
   [[97], [8214], [8214]] \<noteq> ([] :: pystr list)"
proof -
  have none: "first_pron unicode_ipa
     (phonemize example_lang (tokens \<lparr>clean_words = [], tokens = []::nat list\<rparr>) False True) = []"
    by (simp add: example_lang_def first_pron_def)
  have chunks: "List.map_filter
      (\<lambda>s. sentence_phonemes unicode_ipa (phonemize example_lang (tokens s) False True))
      example_sentences = [[[97], [8214], [8214]], [[98], [8214], [8214]]]"
    by (simp add: example_sentences_def example_lang_def
        sentence_phonemes_def first_pron_def unicode_ipa_def Let_def)
  note inst = sentence_without_phonemes_skipped [of unicode_ipa "phonemize example_lang"
      "\<lparr>clean_words = [], tokens = []\<rparr>" False "[\<lparr>clean_words = [[104, 105]], tokens = [1]\<rparr>]"
      "[\<lparr>clean_words = [[104, 111]], tokens = [2]\<rparr>]" "([], [])" example_sentences]
  note skipped = inst [THEN conjunct1, THEN mp, OF none]
  note whole_eq = inst [THEN conjunct2, THEN conjunct1]
  from whole_eq have whole:
    "snd (sentences_loop unicode_ipa (phonemize example_lang) False example_sentences ([], [])) =
     [[97], [8214], [8214], [98], [8214], [8214]]"
    by (simp add: chunks)
  from inst [THEN conjunct2, THEN conjunct2] chunks
  have nonempty: "[[97], [8214], [8214]] \<noteq> ([] :: pystr list)"
    by simp
  show ?thesis
    by (intro conjI none skipped [THEN conjunct1] skipped [THEN conjunct2] whole chunks
        nonempty)
qed

text \<open>
  The sequence of the whole utterance is still empty when every sentence is passed
  over, and the empty sequence is then encoded (to the empty id sequence) and handed
  to the mel stage.
\<close>

lemma map_filter_all_skipped:
  assumes "\<forall>s \<in> set ss. first_pron ipa (ph (tokens s) wi True) = []"
  shows "List.map_filter (\<lambda>s. sentence_phonemes ipa (ph (tokens s) wi True)) ss = []"
  using assms
  by (induction ss) (simp_all add: sentence_phonemes_None_iff [THEN iffD2])

lemma text_phonemes_all_skipped:
  assumes "\<forall>s \<in> set (tokenize lang txt nc (\<not> dc)).
             first_pron ipa (phonemize lang (tokens s) wi True) = []"
  shows "text_phonemes ipa lang txt nc dc wi = [] \<and>
         phoneme_ids (fst (ensure_phoneme_to_id lang)) (text_phonemes ipa lang txt nc dc wi) =
           Inr []"
proof -
  from map_filter_all_skipped [where ph = "phonemize lang", OF assms]
  have "text_phonemes ipa lang txt nc dc wi = []"
    by (simp add: text_phonemes_concat)
  then show ?thesis by simp
qed

section \<open>Encoding\<close>

lemma phoneme_ids_Inr_all2:
  "phoneme_ids d ps = Inr ids \<Longrightarrow> list_all2 (\<lambda>p i. d p = Some i) ps ids"
proof (induction ps arbitrary: ids)
  case Nil
  then show ?case by simp
next
  case (Cons p ps)
  from Cons.prems obtain i rest where "d p = Some i" "phoneme_ids d ps = Inr rest" "ids = i # rest"
    by (auto split: option.splits sum.splits)
  with Cons.IH [of rest] show ?case by simp
qed

lemma phoneme_ids_first_missing:
  "\<forall>q \<in> set known. d q \<noteq> None \<Longrightarrow> d p = None \<Longrightarrow>
   phoneme_ids d (known @ p # rest) = Inl (KeyError p)"
  by (induction known) (auto split: option.splits sum.splits)

lemma phoneme_ids_all_known:
  "\<forall>p \<in> set ps. d p \<noteq> None \<Longrightarrow>
   \<exists>ids. phoneme_ids d ps = Inr ids \<and> length ids = length ps"
  by (induction ps) (auto split: option.splits sum.splits)

lemma phoneme_ids_some_missing:
  "\<exists>p \<in> set ps. d p = None \<Longrightarrow>
   \<exists>known p rest. ps = known @ p # rest \<and> (\<forall>q \<in> set known. d q \<noteq> None) \<and> d p = None"
proof (induction ps)
  case Nil
  then show ?case by simp
next
  case (Cons a ps)
  show ?case
  proof (cases "d a")
    case None
    then have "a # ps = [] @ a # ps \<and> (\<forall>q \<in> set []. d q \<noteq> None) \<and> d a = None"
      by simp
    then show ?thesis by blast
  next
    case (Some i)
    with Cons.prems have "\<exists>p \<in> set ps. d p = None" by auto
    from Cons.IH [OF this] obtain known p rest
      where "ps = known @ p # rest" "\<forall>q \<in> set known. d q \<noteq> None" "d p = None"
      by blast
    with Some have "a # ps = (a # known) @ p # rest \<and>
        (\<forall>q \<in> set (a # known). d q \<noteq> None) \<and> d p = None"
      by simp
    then show ?thesis by blast
  qed
qed

text \<open>
  C2. Encoding raises \<open>KeyError\<close> for the first symbol that the vocabulary does not
  hold, so it raises whenever some symbol is absent and substitutes nothing; when
  every symbol is present the result is the list of their ids, position by position,
  as long as the input.
\<close>

theorem phoneme_ids_KeyError_or_ids:
  "((\<forall>q \<in> set known. d q \<noteq> None) \<and> d p = None \<longrightarrow>
      phoneme_ids d (known @ p # rest) = Inl (KeyError p)) \<and>
   ((\<exists>p \<in> set qs. d p = None) \<longrightarrow>
      (\<exists>p \<in> set qs. d p = None \<and> phoneme_ids d qs = Inl (KeyError p))) \<and>
   ((\<forall>p \<in> set ps. d p \<noteq> None) \<longrightarrow>
      (\<exists>ids. phoneme_ids d ps = Inr ids \<and> length ids = length ps \<and>
             (\<forall>k < length ps. d (ps ! k) = Some (ids ! k))))"
proof (intro conjI impI)
  assume "(\<forall>q \<in> set known. d q \<noteq> None) \<and> d p = None"
  then show "phoneme_ids d (known @ p # rest) = Inl (KeyError p)"
    by (simp add: phoneme_ids_first_missing)
next
  assume "\<exists>p \<in> set qs. d p = None"
  from phoneme_ids_some_missing [OF this] obtain known p rest
    where split: "qs = known @ p # rest" and known: "\<forall>q \<in> set known. d q \<noteq> None"
      and missing: "d p = None"
    by blast
  from known missing have "phoneme_ids d (known @ p # rest) = Inl (KeyError p)"
    by (rule phoneme_ids_first_missing)
  with split missing show "\<exists>p \<in> set qs. d p = None \<and> phoneme_ids d qs = Inl (KeyError p)"
    by auto
next
  assume "\<forall>p \<in> set ps. d p \<noteq> None"
  from phoneme_ids_all_known [OF this] obtain ids
    where ids: "phoneme_ids d ps = Inr ids" and len: "length ids = length ps"
    by blast
  from ids have "list_all2 (\<lambda>p i. d p = Some i) ps ids"
    by (rule phoneme_ids_Inr_all2)
  then have "\<forall>k < length ps. d (ps ! k) = Some (ids ! k)"
    by (simp add: list_all2_conv_all_nth)
  with ids len show "\<exists>ids. phoneme_ids d ps = Inr ids \<and> length ids = length ps \<and>
             (\<forall>k < length ps. d (ps ! k) = Some (ids ! k))"
    by blast
qed

text \<open>
  With the example vocabulary: \<open>x\<close> (U+0078) is not a symbol of it, so a sequence that
  holds \<open>x\<close> after a known symbol ends in \<open>KeyError\<close> for \<open>x\<close>; a sequence of known
  symbols gives their ids.
\<close>

theorem phoneme_ids_KeyError_or_ids_witness:
  "example_vocabulary_map [97] \<noteq> None \<and> example_vocabulary_map [120] = None \<and>
   phoneme_ids example_vocabulary_map ([[97]] @ [120] # [[98]]) = Inl (KeyError [120]) \<and>
   [120] \<in> set [[97], [120], [98]] \<and>
   phoneme_ids example_vocabulary_map [[97], [120], [98]] = Inl (KeyError [120]) \<and>
   example_vocabulary_map [8214] \<noteq> None \<and>
   phoneme_ids example_vocabulary_map [[97], [8214]] = Inr [2, 1] \<and>
   length [2, 1 :: nat] = length [[97], [8214 :: nat]]"
proof -
  have known: "example_vocabulary_map [97] = Some 2" "example_vocabulary_map [8214] = Some 1"
    "example_vocabulary_map [98] = Some 3"
    and missing: "example_vocabulary_map [120] = None"
    by (simp_all add: example_vocabulary_map_def)
  note inst = phoneme_ids_KeyError_or_ids [of "[[97]]" example_vocabulary_map "[120]" "[[98]]"
      "[[97], [120], [98]]" "[[97], [8214]]"]
  from known(1) have all_known: "\<forall>q \<in> set [[97]]. example_vocabulary_map q \<noteq> None"
    by simp
  from inst all_known missing
  have err: "phoneme_ids example_vocabulary_map ([[97]] @ [120] # [[98]]) = Inl (KeyError [120])"
    by blast
  have mem: "[120] \<in> set [[97], [120 :: nat], [98]]"
    by simp
  with missing have "\<exists>p \<in> set [[97], [120], [98]]. example_vocabulary_map p = None"
    by blast
  with inst obtain p where p: "p \<in> set [[97], [120], [98]]" "example_vocabulary_map p = None"
      "phoneme_ids example_vocabulary_map [[97], [120], [98]] = Inl (KeyError p)"
    by blast
  from p(1,2) known have "p = [120]"
    by auto
  with p(3) have err2: "phoneme_ids example_vocabulary_map [[97], [120], [98]] = Inl (KeyError [120])"
    by simp
  from known have "\<forall>p \<in> set [[97], [8214]]. example_vocabulary_map p \<noteq> None"
    by simp
  with inst obtain ids
    where ids: "phoneme_ids example_vocabulary_map [[97], [8214]] = Inr ids"
      "length ids = length [[97], [8214 :: nat]]"
    by blast
  have "phoneme_ids example_vocabulary_map [[97], [8214]] = Inr [2, 1]"
    by (simp add: known)
  with ids err err2 mem known missing show ?thesis
    by simp
qed

section \<open>The vocabulary\<close>

lemma enumerate_dict_absent:
  "p \<notin> set ps \<Longrightarrow> enumerate_dict i ps d p = d p"
  by (induction ps arbitrary: i d) auto

lemma enumerate_dict_present:
  "p \<in> set ps \<Longrightarrow>
   \<exists>k. enumerate_dict i ps d p = Some k \<and> i \<le> k \<and> k < i + length ps \<and> ps ! (k - i) = p"
proof (induction ps arbitrary: i d)
  case Nil
  then show ?case by simp
next
  case (Cons x xs)
  show ?case
  proof (cases "p \<in> set xs")
    case True
    from Cons.IH [OF True, of "Suc i" "d(x \<mapsto> i)"] obtain k
      where k: "enumerate_dict (Suc i) xs (d(x \<mapsto> i)) p = Some k" "Suc i \<le> k"
        "k < Suc i + length xs" "xs ! (k - Suc i) = p"
      by blast
    from k(2) have "k - i = Suc (k - Suc i)" by simp
    with k show ?thesis by auto
  next
    case False
    with Cons.prems have "p = x" by simp
    with False show ?thesis
      by (simp add: enumerate_dict_absent)
  qed
qed

lemma build_phoneme_to_id_present:
  "p \<in> set phonemes_list \<Longrightarrow>
   \<exists>k. build_phoneme_to_id phonemes_list p = Some k \<and> k < length phonemes_list \<and>
       phonemes_list ! k = p"
  using enumerate_dict_present [of p phonemes_list 0 Map.empty]
  by (auto simp add: build_phoneme_to_id_def)

lemma build_phoneme_to_id_absent:
  "p \<notin> set phonemes_list \<Longrightarrow> build_phoneme_to_id phonemes_list p = None"
  by (simp add: build_phoneme_to_id_def enumerate_dict_absent)

lemma dom_build_phoneme_to_id:
  "dom (build_phoneme_to_id phonemes_list) = set phonemes_list"
proof
  show "dom (build_phoneme_to_id phonemes_list) \<subseteq> set phonemes_list"
    using build_phoneme_to_id_absent by fastforce
  show "set phonemes_list \<subseteq> dom (build_phoneme_to_id phonemes_list)"
    using build_phoneme_to_id_present by fastforce
qed

text \<open>
  C5. Symbols of the inventory encode without error, and reading each id back as the
  entry of the inventory list at that index gives the symbols again. This holds also
  for an inventory that lists a symbol twice: the id is then the last index of the
  symbol.
\<close>

theorem encode_decode_round_trip:
  assumes "set ps \<subseteq> set phonemes_list"
  shows "\<exists>ids. phoneme_ids (build_phoneme_to_id phonemes_list) ps = Inr ids \<and>
           length ids = length ps \<and>
           decode_ids phonemes_list ids = Inr ps"
  using assms
proof (induction ps)
  case Nil
  show ?case by simp
next
  case (Cons p ps)
  then obtain ids where ids: "phoneme_ids (build_phoneme_to_id phonemes_list) ps = Inr ids"
      "length ids = length ps" "decode_ids phonemes_list ids = Inr ps"
    by auto
  from Cons.prems have "p \<in> set phonemes_list" by simp
  from build_phoneme_to_id_present [OF this] obtain k
    where k: "build_phoneme_to_id phonemes_list p = Some k" "k < length phonemes_list"
      "phonemes_list ! k = p"
    by blast
  from ids k show ?case by simp
qed



theorem encode_decode_round_trip_witness:
  "set [[97], [8214], [97]] \<subseteq> set (id_to_phonemes example_lang) \<and>
   phoneme_ids (build_phoneme_to_id (id_to_phonemes example_lang)) [[97], [8214], [97]] =
     Inr [2, 1, 2] \<and>
   decode_ids (id_to_phonemes example_lang) [2, 1, 2] = Inr [[97], [8214], [97]]"
proof -
  have sub: "set [[97], [8214], [97]] \<subseteq> set (id_to_phonemes example_lang)"
    by (simp add: example_lang_def)
  have enc: "phoneme_ids (build_phoneme_to_id (id_to_phonemes example_lang))
      [[97], [8214], [97]] = Inr [2, 1, 2]"
    by (simp add: example_lang_def build_phoneme_to_id_def numeral_2_eq_2 [symmetric])
  from encode_decode_round_trip [OF sub] enc
  have "decode_ids (id_to_phonemes example_lang) [2, 1, 2] = Inr [[97], [8214], [97]]"
    by auto
  with sub enc show ?thesis
    by simp
qed






section \<open>The whole call\<close>

lemma text_to_speech_cases:
  "text_to_speech ipa clock txt lang tts_model vocoder_model sample_rate nc dc wi =
     (case phoneme_ids (fst (ensure_phoneme_to_id lang)) (text_phonemes ipa lang txt nc dc wi) of
        Inl e \<Rightarrow> (Inl e, snd (ensure_phoneme_to_id lang))
      | Inr ids \<Rightarrow>
          if sample_rate = 0 \<or> vocoder_end_time clock = tts_start_time clock
          then (Inl ZeroDivisionError, snd (ensure_phoneme_to_id lang))
          else (Inr (mels_to_audio vocoder_model (phonemes_to_mels tts_model ids)),
                snd (ensure_phoneme_to_id lang)))"
  by (simp add: text_to_speech_def text_phonemes_def Let_def split_beta split: sum.splits)


text \<open>The \<open>KeyError\<close> of the encoding ends the call: no model is run.\<close>

lemma text_to_speech_KeyError:
  assumes "text_phonemes ipa lang txt nc dc wi = known @ p # rest"
    and "\<forall>q \<in> set known. fst (ensure_phoneme_to_id lang) q \<noteq> None"
    and "fst (ensure_phoneme_to_id lang) p = None"
  shows "fst (text_to_speech ipa clock txt lang tts_model vocoder_model sample_rate nc dc wi) =
           Inl (KeyError p)"
  using assms by (simp add: text_to_speech_cases phoneme_ids_first_missing)




lemma example_vocabulary:
  "fst (ensure_phoneme_to_id example_lang) =
     [[95] \<mapsto> 0, [8214] \<mapsto> 1, [97] \<mapsto> 2, [98] \<mapsto> 3, [712] \<mapsto> 4]"
  by (simp add: ensure_phoneme_to_id_def example_lang_def build_phoneme_to_id_def Let_def
      numeral_2_eq_2 [symmetric])

lemma example_text_phonemes:
  "text_phonemes unicode_ipa example_lang example_text False False False =
     [[97], [8214], [8214], [98], [8214], [8214]]"
  by (simp add: text_phonemes_def example_lang_def example_sentences_def
      sentence_phonemes_def first_pron_def unicode_ipa_def Let_def)

lemma example_phoneme_ids:
  "phoneme_ids (fst (ensure_phoneme_to_id example_lang))
     (text_phonemes unicode_ipa example_lang example_text False False False) = Inr [2, 1, 1, 3, 1, 1]"
  by (simp add: example_vocabulary example_text_phonemes)

text \<open>
  C4, as stated, fails: for the three example sentences, two of which have phonemes,
  \<open>text_to_speech\<close> runs the models once on the ids of both sentences and returns that
  one audio, where the specification's orchestrator gives a pair for each of the two
  sentences.
\<close>

theorem text_to_speech_one_audio_counterexample:
  "fst (text_to_speech unicode_ipa example_clock example_text example_lang example_tts example_vocoder
          22050 False False False) = Inr [2, 1, 1, 3, 1, 1] \<and>
   text_and_audios_spec unicode_ipa (fst (ensure_phoneme_to_id example_lang))
       (phonemize example_lang) False example_tts example_vocoder
       (tokenize example_lang example_text False True) =
     Inr [([[104, 105]], [2, 1, 1]), ([[104, 111]], [3, 1, 1])] \<and>
   \<not> (\<exists>pairs.
        text_and_audios_spec unicode_ipa (fst (ensure_phoneme_to_id example_lang))
          (phonemize example_lang) False example_tts example_vocoder
          (tokenize example_lang example_text False True) = Inr pairs \<and>
        returned_audios (fst (text_to_speech unicode_ipa example_clock example_text example_lang
          example_tts example_vocoder 22050 False False False)) = map snd pairs)"
proof -
  have code: "fst (text_to_speech unicode_ipa example_clock example_text example_lang example_tts
      example_vocoder 22050 False False False) = Inr [2, 1, 1, 3, 1, 1]"
    by (simp add: text_to_speech_cases example_phoneme_ids example_clock_def
        example_tts_def example_vocoder_def)
  have spec: "text_and_audios_spec unicode_ipa (fst (ensure_phoneme_to_id example_lang))
       (phonemize example_lang) False example_tts example_vocoder
       (tokenize example_lang example_text False True) =
     Inr [([[104, 105]], [2, 1, 1]), ([[104, 111]], [3, 1, 1])]"
    by (subst example_vocabulary)
       (simp add: example_lang_def example_sentences_def
        sentence_phonemes_def first_pron_def unicode_ipa_def Let_def
        example_tts_def example_vocoder_def)
  show ?thesis
    by (simp add: code spec returned_audios_def)
qed

text \<open>
  C4, amended. The phoneme sequence of the utterance is the concatenation of the
  sequences of its sentences in order; when it encodes and no division by zero occurs,
  \<open>text_to_speech\<close> returns exactly one audio for the whole utterance, the vocoder's
  output for the mel stage's output for the ids of that concatenation.
\<close>

theorem text_to_speech_single_inference:
  assumes "phoneme_ids (fst (ensure_phoneme_to_id lang)) (text_phonemes ipa lang txt nc dc wi) =
             Inr ids"
    and "sample_rate \<noteq> 0"
    and "vocoder_end_time clock \<noteq> tts_start_time clock"
  shows "text_phonemes ipa lang txt nc dc wi =
           concat (List.map_filter
             (\<lambda>s. sentence_phonemes ipa (phonemize lang (tokens s) wi True))
             (tokenize lang txt nc (\<not> dc))) \<and>
         fst (text_to_speech ipa clock txt lang tts_model vocoder_model sample_rate nc dc wi) =
           Inr (mels_to_audio vocoder_model (phonemes_to_mels tts_model ids)) \<and>
         returned_audios
           (fst (text_to_speech ipa clock txt lang tts_model vocoder_model sample_rate nc dc wi)) =
           [mels_to_audio vocoder_model (phonemes_to_mels tts_model ids)]"
  using assms
  by (simp add: text_to_speech_cases text_phonemes_concat [symmetric] returned_audios_def)

theorem text_to_speech_single_inference_witness:
  "phoneme_ids (fst (ensure_phoneme_to_id example_lang))
     (text_phonemes unicode_ipa example_lang example_text False False False) = Inr [2, 1, 1, 3, 1, 1] \<and>
   (22050::int) \<noteq> 0 \<and>
   vocoder_end_time example_clock \<noteq> tts_start_time example_clock \<and>
   text_phonemes unicode_ipa example_lang example_text False False False =
     [[97], [8214], [8214], [98], [8214], [8214]] \<and>
   returned_audios (fst (text_to_speech unicode_ipa example_clock example_text example_lang example_tts
     example_vocoder 22050 False False False)) = [[2, 1, 1, 3, 1, 1]]"
proof -
  have rate: "(22050::int) \<noteq> 0" by simp
  have clock: "vocoder_end_time example_clock \<noteq> tts_start_time example_clock"
    by (simp add: example_clock_def)
  from text_to_speech_single_inference [OF example_phoneme_ids rate clock,
      of example_tts example_vocoder]
  have "returned_audios (fst (text_to_speech unicode_ipa example_clock example_text example_lang
      example_tts example_vocoder 22050 False False False)) = [[2, 1, 1, 3, 1, 1]]"
    by (simp add: example_tts_def example_vocoder_def returned_audios_def)
  with example_phoneme_ids example_text_phonemes rate clock show ?thesis
    by simp
qed

section \<open>The real-time factor\<close>

text \<open>
  Lines 123-125 compute logged values only, but their divisions raise on a zero
  divisor: with a sample rate of zero, or with equal clock readings at the start of the
  mel inference and the end of the vocoder inference, no audio is returned.
\<close>

lemma text_to_speech_ZeroDivisionError:
  "phoneme_ids (fst (ensure_phoneme_to_id lang)) (text_phonemes ipa lang txt nc dc wi) = Inr ids \<Longrightarrow>
   sample_rate = 0 \<or> vocoder_end_time clock = tts_start_time clock \<Longrightarrow>
   fst (text_to_speech ipa clock txt lang tts_model vocoder_model sample_rate nc dc wi) =
     Inl ZeroDivisionError"
  by (auto simp add: text_to_speech_cases)

text \<open>
  The call returns the audio exactly when the factor is computed, whatever the number
  of samples: the two divisions of \<open>real_time_factor\<close> are the two tests of
  \<open>text_to_speech\<close>.
\<close>

lemma text_to_speech_real_time_factor:
  "text_to_speech ipa clock txt lang tts_model vocoder_model sample_rate nc dc wi =
     (case phoneme_ids (fst (ensure_phoneme_to_id lang)) (text_phonemes ipa lang txt nc dc wi) of
        Inl e \<Rightarrow> (Inl e, snd (ensure_phoneme_to_id lang))
      | Inr ids \<Rightarrow>
          (case real_time_factor n sample_rate clock of
             Inl e \<Rightarrow> (Inl e, snd (ensure_phoneme_to_id lang))
           | Inr factor \<Rightarrow>
               (Inr (mels_to_audio vocoder_model (phonemes_to_mels tts_model ids)),
                snd (ensure_phoneme_to_id lang))))"
  by (simp add: text_to_speech_cases real_time_factor_def Let_def split: sum.splits)




text \<open>
  C10. A pronunciation whose only phoneme is a stress marker alone passes the test
  for empty phonemes, contributes the marker and then the rest of the phoneme, which
  is the empty string. The empty string is a symbol of the sequence that is encoded,
  and with a vocabulary that holds the marker and not the empty string the call ends
  in \<open>KeyError\<close> for the empty string.
\<close>

theorem stress_only_phoneme_appends_empty_symbol:
  assumes "is_stress ipa [c]"
    and "tokenize lang txt nc (\<not> dc) = [s]"
    and "phonemize lang (tokens s) wi True = [[[[c]]]]"
  shows "first_pron ipa [[[[c]]]] = [[c], []] \<and>
         text_phonemes ipa lang txt nc dc wi =
           [[c], []] @ (if [] = BREAK_MAJOR ipa then [BREAK_MAJOR ipa]
                        else [BREAK_MAJOR ipa, BREAK_MAJOR ipa]) \<and>
         [] \<in> set (text_phonemes ipa lang txt nc dc wi) \<and>
         (fst (ensure_phoneme_to_id lang) [c] \<noteq> None \<and> fst (ensure_phoneme_to_id lang) [] = None
            \<longrightarrow> fst (text_to_speech ipa clock txt lang tts_model vocoder_model sample_rate nc dc wi) =
                  Inl (KeyError []))"
proof -
  from assms(1) have fp: "first_pron ipa [[[[c]]]] = [[c], []]"
    by (simp add: first_pron_def)
  then have sp: "sentence_phonemes ipa [[[[c]]]] =
      Some ([[c], []] @ (if [] = BREAK_MAJOR ipa then [BREAK_MAJOR ipa]
                        else [BREAK_MAJOR ipa, BREAK_MAJOR ipa]))"
    by (simp add: sentence_phonemes_def Let_def)
  with assms(2,3) have tp: "text_phonemes ipa lang txt nc dc wi =
      [[c], []] @ (if [] = BREAK_MAJOR ipa then [BREAK_MAJOR ipa]
                        else [BREAK_MAJOR ipa, BREAK_MAJOR ipa])"
    by (simp add: text_phonemes_def)
  have "fst (text_to_speech ipa clock txt lang tts_model vocoder_model sample_rate nc dc wi) =
                  Inl (KeyError [])"
    if "fst (ensure_phoneme_to_id lang) [c] \<noteq> None \<and> fst (ensure_phoneme_to_id lang) [] = None"
    using that by (auto simp add: text_to_speech_cases tp)
  with fp tp show ?thesis
    by simp
qed

theorem stress_only_phoneme_appends_empty_symbol_witness:
  "is_stress unicode_ipa [712] \<and>
   tokenize example_lang [712] False (\<not> False) = [\<lparr>clean_words = [[712]], tokens = [0]\<rparr>] \<and>
   phonemize example_lang (tokens \<lparr>clean_words = [[712]], tokens = [0::nat]\<rparr>) False True =
     [[[[712]]]] \<and>
   text_phonemes unicode_ipa example_lang [712] False False False =
     [[712], [], [8214], [8214]] \<and>
   fst (text_to_speech unicode_ipa example_clock [712] example_lang example_tts example_vocoder
          22050 False False False) = Inl (KeyError [])"
proof -
  have a: "is_stress unicode_ipa [712]"
    by (simp add: unicode_ipa_def)
  have b: "tokenize example_lang [712] False (\<not> False) =
      [\<lparr>clean_words = [[712]], tokens = [0]\<rparr>]"
    by (simp add: example_lang_def example_text_def)
  have c: "phonemize example_lang (tokens \<lparr>clean_words = [[712]], tokens = [0::nat]\<rparr>)
      False True = [[[[712]]]]"
    by (simp add: example_lang_def)
  have d: "fst (ensure_phoneme_to_id example_lang) [712] \<noteq> None \<and>
      fst (ensure_phoneme_to_id example_lang) [] = None"
    by (simp add: example_vocabulary)
  from stress_only_phoneme_appends_empty_symbol [OF a b c, of example_clock example_tts
      example_vocoder 22050] d
  have "text_phonemes unicode_ipa example_lang [712] False False False =
     [[712], [], [8214], [8214]] \<and>
   fst (text_to_speech unicode_ipa example_clock [712] example_lang example_tts example_vocoder
          22050 False False False) = Inl (KeyError [])"
    by (simp add: unicode_ipa_def)
  with a b c show ?thesis
    by simp
qed

section \<open>The loaders\<close>

text \<open>
  C7. \<open>load_tts_model\<close> returns what the Tacotron2 constructor gives for the
  configuration when the tag is \<open>TACOTRON2\<close> and raises \<open>ValueError\<close> for every other
  tag; \<open>load_vocoder_model\<close> returns what the Griffin-Lim or the HiFi-GAN constructor
  gives for its two tags and raises \<open>ValueError\<close> for every other tag.
\<close>

theorem loaders_dispatch_on_type:
  "load_tts_model new_options Tacotron2TextToSpeech (TACOTRON2 :: 'a TextToSpeechType)
       model_path no_optimizations =
     Inr (Tacotron2TextToSpeech
       \<lparr>tts_model_path = model_path,
        tts_session_options =
          (if no_optimizations then new_options\<lparr>graph_optimization_level := ORT_DISABLE_ALL\<rparr>
           else new_options)\<rparr>) \<and>
   ((tts_type :: 'a TextToSpeechType) \<noteq> TACOTRON2 \<longrightarrow>
      load_tts_model new_options Tacotron2TextToSpeech tts_type model_path no_optimizations =
        Inl (ValueError ''Unknown text to speech model type: '' tts_type)) \<and>
   load_vocoder_model new_options GriffinLimVocoder HiFiGanVocoder
       (GRIFFIN_LIM :: 'b VocoderType) model_path no_optimizations =
     Inr (GriffinLimVocoder
       \<lparr>vocoder_model_path = model_path,
        vocoder_session_options =
          (if no_optimizations then new_options\<lparr>graph_optimization_level := ORT_DISABLE_ALL\<rparr>
           else new_options)\<rparr>) \<and>
   load_vocoder_model new_options GriffinLimVocoder HiFiGanVocoder
       (HIFI_GAN :: 'b VocoderType) model_path no_optimizations =
     Inr (HiFiGanVocoder
       \<lparr>vocoder_model_path = model_path,
        vocoder_session_options =
          (if no_optimizations then new_options\<lparr>graph_optimization_level := ORT_DISABLE_ALL\<rparr>
           else new_options)\<rparr>) \<and>
   ((vocoder_type :: 'b VocoderType) \<noteq> GRIFFIN_LIM \<and> vocoder_type \<noteq> HIFI_GAN \<longrightarrow>
      load_vocoder_model new_options GriffinLimVocoder HiFiGanVocoder vocoder_type model_path
          no_optimizations =
        Inl (ValueError ''Unknown vocoder model type: '' vocoder_type))"
  by (simp add: load_tts_model_def load_vocoder_model_def Let_def)


theorem loaders_dispatch_on_type_witness:
  "OtherTextToSpeechType ''glow_tts'' \<noteq> TACOTRON2 \<and>
   load_tts_model \<lparr>graph_optimization_level = ORT_ENABLE_ALL\<rparr> (\<lambda>config. (''tacotron2'', config))
       (OtherTextToSpeechType ''glow_tts'') ''model.onnx'' True =
     Inl (ValueError ''Unknown text to speech model type: '' (OtherTextToSpeechType ''glow_tts'')) \<and>
   load_tts_model \<lparr>graph_optimization_level = ORT_ENABLE_ALL\<rparr> (\<lambda>config. (''tacotron2'', config))
       (TACOTRON2 :: string TextToSpeechType) ''model.onnx'' True =
     Inr (''tacotron2'', \<lparr>tts_model_path = ''model.onnx'',
            tts_session_options = \<lparr>graph_optimization_level = ORT_DISABLE_ALL\<rparr>\<rparr>) \<and>
   OtherVocoderType ''waveglow'' \<noteq> GRIFFIN_LIM \<and> OtherVocoderType ''waveglow'' \<noteq> HIFI_GAN \<and>
   load_vocoder_model \<lparr>graph_optimization_level = ORT_ENABLE_ALL\<rparr>
       (\<lambda>config. (''griffin_lim'', config)) (\<lambda>config. (''hifi_gan'', config))
       (OtherVocoderType ''waveglow'') ''generator.onnx'' False =
     Inl (ValueError ''Unknown vocoder model type: '' (OtherVocoderType ''waveglow'')) \<and>
   load_vocoder_model \<lparr>graph_optimization_level = ORT_ENABLE_ALL\<rparr>
       (\<lambda>config. (''griffin_lim'', config)) (\<lambda>config. (''hifi_gan'', config))
       (HIFI_GAN :: string VocoderType) ''generator.onnx'' False =
     Inr (''hifi_gan'', \<lparr>vocoder_model_path = ''generator.onnx'',
            vocoder_session_options = \<lparr>graph_optimization_level = ORT_ENABLE_ALL\<rparr>\<rparr>)"
proof -
  have a: "OtherTextToSpeechType ''glow_tts'' \<noteq> TACOTRON2"
    and b: "OtherVocoderType ''waveglow'' \<noteq> GRIFFIN_LIM \<and> OtherVocoderType ''waveglow'' \<noteq> HIFI_GAN"
    by simp_all
  from a loaders_dispatch_on_type [of "\<lparr>graph_optimization_level = ORT_ENABLE_ALL\<rparr>"
      "\<lambda>config. (''tacotron2'', config)" "''model.onnx''" True "OtherTextToSpeechType ''glow_tts''"
      "\<lambda>config. (''griffin_lim'', config)" "\<lambda>config. (''hifi_gan'', config)"
      "OtherVocoderType ''waveglow''"]
  have tts: "load_tts_model \<lparr>graph_optimization_level = ORT_ENABLE_ALL\<rparr>
       (\<lambda>config. (''tacotron2'', config)) (OtherTextToSpeechType ''glow_tts'') ''model.onnx'' True =
     Inl (ValueError ''Unknown text to speech model type: '' (OtherTextToSpeechType ''glow_tts''))"
    "load_tts_model \<lparr>graph_optimization_level = ORT_ENABLE_ALL\<rparr> (\<lambda>config. (''tacotron2'', config))
       (TACOTRON2 :: string TextToSpeechType) ''model.onnx'' True =
     Inr (''tacotron2'', \<lparr>tts_model_path = ''model.onnx'',
            tts_session_options = \<lparr>graph_optimization_level = ORT_DISABLE_ALL\<rparr>\<rparr>)"
    by simp_all
  from b loaders_dispatch_on_type [of "\<lparr>graph_optimization_level = ORT_ENABLE_ALL\<rparr>"
      "\<lambda>config. (''tacotron2'', config)" "''generator.onnx''" False "OtherTextToSpeechType ''glow_tts''"
      "\<lambda>config. (''griffin_lim'', config)" "\<lambda>config. (''hifi_gan'', config)"
      "OtherVocoderType ''waveglow''"]
  have voc: "load_vocoder_model \<lparr>graph_optimization_level = ORT_ENABLE_ALL\<rparr>
       (\<lambda>config. (''griffin_lim'', config)) (\<lambda>config. (''hifi_gan'', config))
       (OtherVocoderType ''waveglow'') ''generator.onnx'' False =
     Inl (ValueError ''Unknown vocoder model type: '' (OtherVocoderType ''waveglow''))"
    "load_vocoder_model \<lparr>graph_optimization_level = ORT_ENABLE_ALL\<rparr>
       (\<lambda>config. (''griffin_lim'', config)) (\<lambda>config. (''hifi_gan'', config))
       (HIFI_GAN :: string VocoderType) ''generator.onnx'' False =
     Inr (''hifi_gan'', \<lparr>vocoder_model_path = ''generator.onnx'',
            vocoder_session_options = \<lparr>graph_optimization_level = ORT_ENABLE_ALL\<rparr>\<rparr>)"
    by simp_all
  from a b tts voc show ?thesis
    by blast
qed

section \<open>The phoneme map transform\<close>

lemma phoneme_map_transform_None:
  "phoneme_map_transform phoneme_map p = PyNone"
  by (simp add: phoneme_map_transform_def)

text \<open>
  C3. The closure returns \<open>None\<close> for a phoneme that the map holds and for one that
  it does not hold, where \<open>phoneme_map.get(p, p)\<close> is the mapped value and the phoneme
  itself.
\<close>

theorem phoneme_map_transform_drops_value:
  "phoneme_map_transform [[97::nat] \<mapsto> PyStr [98]] [97] = PyNone \<and>
   dict_get [[97::nat] \<mapsto> PyStr [98]] [97] (PyStr [97]) = PyStr [98] \<and>
   phoneme_map_transform [[97::nat] \<mapsto> PyStr [98]] [99] = PyNone \<and>
   dict_get [[97::nat] \<mapsto> PyStr [98]] [99] (PyStr [99]) = PyStr [99]"
  by (simp add: phoneme_map_transform_def dict_get_def)

end
